theory Spec2Isabelle
  imports Main "HOL-Library.AList"
begin

section \<open>The asynchronous Ghoti client (package ghoti, type Client)\<close>

text \<open>
  A shallow embedding of the multiplexed client: the dispatcher run by the background
  receiver (\<open>listen\<close>, \<open>processMessage\<close> and its handlers), the shutdown sequence
  (\<open>Close\<close>), the three slot operations (\<open>Read\<close>, \<open>Write\<close>, \<open>Broadcast\<close>)
  and the error table of package model (\<open>NewGhotiError\<close>).

  Every goroutine's code is a function on the shared client state. Where a goroutine
  cannot go on without another goroutine acting (a send on a full channel, the wait
  group, the blocking line read, a select with no ready case) the function stops with
  \<open>Blocked\<close> and the state reached there; a Go panic is \<open>Panicked\<close>.
\<close>

subsection \<open>Errors\<close>

text \<open>\<open>model.GhotiError\<close>: the structured application error.\<close>

record GhotiError =
  Code :: string
  Message :: string

text \<open>
  The error values the client handles: \<open>fmt.Errorf\<close> without and with a wrapped
  error (\<open>%w\<close>), \<open>*model.GhotiError\<close>, \<open>*strconv.NumError\<close> (function, input,
  reason), the transport's \<open>net.ErrClosed\<close> and any other transport error.
\<close>

datatype error =
    Errorf string
  | Errorf_w string error
  | GhotiErr GhotiError
  | NumError string string string
  | net_ErrClosed
  | NetError string

text \<open>\<open>errors.Is(err, target)\<close> for these values: follow the \<open>%w\<close> chain.\<close>

fun errors_Is :: "error \<Rightarrow> error \<Rightarrow> bool" where
  "errors_Is (Errorf_w m e) target = (Errorf_w m e = target \<or> errors_Is e target)"
| "errors_Is e target = (e = target)"

definition NewGhotiError :: "string \<Rightarrow> GhotiError" where
  "NewGhotiError code =
     \<lparr>Code = code,
      Message =
        (if code = ''001'' then ''Invalid command''
         else if code = ''002'' then ''Invalid slot number''
         else if code = ''003'' then ''Invalid data length''
         else if code = ''004'' then ''Authentication required''
         else if code = ''005'' then ''Invalid credentials''
         else if code = ''006'' then ''Permission denied''
         else if code = ''007'' then ''Slot locked''
         else if code = ''008'' then ''No tokens available''
         else if code = ''009'' then ''Internal server error''
         else ''Unknown error'')\<rparr>"

subsection \<open>Library functions of Go used by the client\<close>

text \<open>Decimal rendering of a natural number (the digits of \<open>%d\<close>).\<close>

fun digits :: "nat \<Rightarrow> string" where
  "digits n = (if n < 10 then [''0123456789'' ! n]
               else digits (n div 10) @ [''0123456789'' ! (n mod 10)])"

declare digits.simps [simp del]

text \<open>\<open>fmt.Sprintf("%d", n)\<close>.\<close>

definition fmt_d :: "int \<Rightarrow> string" where
  "fmt_d n = (if n < 0 then CHR ''-'' # digits (nat (- n)) else digits (nat n))"

text \<open>
  \<open>fmt.Sprintf("%03d", n)\<close>: zero padding to width 3, the sign counted in the width
  and written before the zeros.
\<close>

definition fmt_03d :: "int \<Rightarrow> string" where
  "fmt_03d n =
     (if n < 0
      then (let ds = digits (nat (- n)) in CHR ''-'' # replicate (2 - length ds) CHR ''0'' @ ds)
      else (let ds = digits (nat n) in replicate (3 - length ds) CHR ''0'' @ ds))"

definition is_digit :: "char \<Rightarrow> bool" where
  "is_digit ch = (ch \<in> set ''0123456789'')"

definition digit_val :: "char \<Rightarrow> int" where
  "digit_val ch = of_char ch - 48"

text \<open>The accumulation loop \<open>n = n*10 + int(ch)\<close> of the parser.\<close>

fun digits_val :: "int \<Rightarrow> string \<Rightarrow> int" where
  "digits_val n [] = n"
| "digits_val n (ch # s) = digits_val (n * 10 + digit_val ch) s"

text \<open>
  \<open>strconv.Atoi\<close> on a 64-bit platform: an optional sign \<open>+\<close> or \<open>-\<close>, then at
  least one decimal digit and nothing else; a value outside the range of \<open>int\<close> is a
  range error.
\<close>

definition Atoi :: "string \<Rightarrow> error + int" where
  "Atoi s0 =
     (let neg = (s0 \<noteq> [] \<and> hd s0 = CHR ''-'');
          s = (if s0 \<noteq> [] \<and> (hd s0 = CHR ''-'' \<or> hd s0 = CHR ''+'') then tl s0 else s0)
      in if s = [] \<or> \<not> list_all is_digit s then Inl (NumError ''Atoi'' s0 ''invalid syntax'')
         else (let n = (if neg then - digits_val 0 s else digits_val 0 s)
               in if n < - (2 ^ 63) \<or> 2 ^ 63 - 1 < n
                  then Inl (NumError ''Atoi'' s0 ''value out of range'')
                  else Inr n))"

text \<open>\<open>strings.Split(s, sep)\<close> for a separator of one character (the client splits on "/").\<close>

fun Split :: "string \<Rightarrow> char \<Rightarrow> string list" where
  "Split [] sep = [[]]"
| "Split (x # xs) sep =
     (if x = sep then [] # Split xs sep
      else (case Split xs sep of [] \<Rightarrow> [[x]] | p # ps \<Rightarrow> (x # p) # ps))"

text \<open>\<open>strings.TrimSuffix(s, "\n")\<close>.\<close>

definition TrimSuffix_nl :: "string \<Rightarrow> string" where
  "TrimSuffix_nl s = (if s \<noteq> [] \<and> last s = CHR 0x0A then butlast s else s)"

text \<open>
  \<open>%c\<close> applied to a byte: the byte is taken as a code point and written in UTF-8
  (two bytes from 128 on).
\<close>

definition fmt_c :: "char \<Rightarrow> string" where
  "fmt_c ch =
     (let n = (of_char ch :: nat)
      in if n < 128 then [ch] else [char_of (192 + n div 64), char_of (128 + n mod 64)])"

text \<open>
  The \<open>Error()\<close> text of an error, as \<open>%v\<close> prints it. A \<open>NumError\<close> quotes its
  input with \<open>strconv.Quote\<close>, written here without escapes: the client never prints
  one.
\<close>

fun Error_text :: "error \<Rightarrow> string" where
  "Error_text (Errorf m) = m"
| "Error_text (Errorf_w m e) = m @ Error_text e"
| "Error_text (GhotiErr g) = ''Ghoti error '' @ Code g @ '': '' @ Message g"
| "Error_text (NumError f s r) =
     ''strconv.'' @ f @ '': parsing '' @ [CHR 0x22] @ s @ [CHR 0x22] @ '': '' @ r"
| "Error_text net_ErrClosed = ''use of closed network connection''"
| "Error_text (NetError m) = m"

subsection \<open>The client state\<close>

record AuthConfig =
  User :: string
  Pass :: string

record Config =
  Protocol :: string
  Server :: string
  ReadBufferSize :: int
  Auth :: AuthConfig

record Response =
  Data :: string
  Error :: "error option"

text \<open>
  The transport \<open>net.Conn\<close>, as far as the client uses it: whether \<open>Close\<close> was
  called on it, the error the network gives to a write while it is open (\<open>None\<close>
  when the write succeeds), and the frames written so far.
\<close>

record Conn =
  conn_closed :: bool
  conn_fault :: "error option"
  conn_written :: "string list"

text \<open>
  \<open>pendingRequests\<close> is the map from slot to response channel, kept as an association
  list and used through \<open>map_of\<close>, \<open>AList.update\<close> and \<open>AList.delete\<close>. A channel
  is a reference: \<open>chans\<close> is the store of the channels made so far (the values
  buffered in each, oldest first) and \<open>next_chan\<close> the next fresh reference.
  \<open>done_closed\<close> says whether the channel \<open>done\<close> has been closed, \<open>wg\<close> is the
  counter of the wait group. \<open>broadcastHandler\<close> says whether a handler is set; its
  calls are recorded in \<open>handler_calls\<close>. \<open>stdout\<close> holds what \<open>fmt.Printf\<close>
  wrote. The mutex is held only inside the steps that are atomic here.
\<close>

record Client =
  config :: Config
  conn :: Conn
  pendingRequests :: "(int \<times> nat) list"
  chans :: "nat \<Rightarrow> Response list"
  next_chan :: nat
  broadcastHandler :: bool
  handler_calls :: "(int \<times> string) list"
  done_closed :: bool
  wg :: nat
  stdout :: "string list"

datatype block_point = AtChanSend nat | AtWgWait | AtReadString | AtSelect

datatype 'a outcome =
    Returned 'a Client
  | Blocked block_point Client
  | Panicked string Client

fun state_of :: "'a outcome \<Rightarrow> Client" where
  "state_of (Returned r c) = c"
| "state_of (Blocked p c) = c"
| "state_of (Panicked m c) = c"

text \<open>
  \<open>NewClient\<close> after a successful dial: empty registry, \<open>done\<close> open, and the
  listener goroutine counted in the wait group.
\<close>

definition NewClient :: "Config \<Rightarrow> error option \<Rightarrow> error + Client" where
  "NewClient cfg dial_err =
     (case dial_err of
        Some err \<Rightarrow> Inl err
      | None \<Rightarrow>
          Inr \<lparr>config = cfg,
               conn = \<lparr>conn_closed = False, conn_fault = None, conn_written = []\<rparr>,
               pendingRequests = [],
               chans = (\<lambda>ch. []),
               next_chan = 0,
               broadcastHandler = False,
               handler_calls = [],
               done_closed = False,
               wg = 1,
               stdout = []\<rparr>)"

definition SetBroadcastHandler :: "Client \<Rightarrow> bool \<Rightarrow> Client" where
  "SetBroadcastHandler c handler = c\<lparr>broadcastHandler := handler\<rparr>"

text \<open>\<open>ch <- r\<close> on a channel made with capacity 1: it waits while the buffer is full.\<close>

definition chan_send :: "Client \<Rightarrow> nat \<Rightarrow> Response \<Rightarrow> unit outcome" where
  "chan_send c ch r =
     (if length (chans c ch) < 1
      then Returned () (c\<lparr>chans := (chans c)(ch := chans c ch @ [r])\<rparr>)
      else Blocked (AtChanSend ch) c)"

definition conn_Close :: "Client \<Rightarrow> error option \<times> Client" where
  "conn_Close c =
     (if conn_closed (conn c) then (Some net_ErrClosed, c)
      else (None, c\<lparr>conn := (conn c)\<lparr>conn_closed := True\<rparr>\<rparr>))"

definition conn_Write :: "Client \<Rightarrow> string \<Rightarrow> error option \<times> Client" where
  "conn_Write c bytes =
     (if conn_closed (conn c) then (Some net_ErrClosed, c)
      else (case conn_fault (conn c) of
              Some err \<Rightarrow> (Some err, c)
            | None \<Rightarrow> (None, c\<lparr>conn := (conn c)\<lparr>conn_written := conn_written (conn c) @ [bytes]\<rparr>\<rparr>)))"

definition Printf :: "Client \<Rightarrow> string \<Rightarrow> Client" where
  "Printf c text = c\<lparr>stdout := stdout c @ [text]\<rparr>"

subsection \<open>Shutdown\<close>

text \<open>
  \<open>Close\<close> is \<open>close(c.done); c.wg.Wait(); return c.conn.Close()\<close>. Closing a closed
  channel panics. \<open>wg.Wait()\<close> returns only when the counter is zero, that is when
  the listener has run its deferred \<open>wg.Done()\<close>; \<open>Close_from_Wait\<close> is \<open>Close\<close>
  from that call on, where a caller that was blocked there goes on.
\<close>

definition Close_from_Wait :: "Client \<Rightarrow> error option outcome" where
  "Close_from_Wait c =
     (if wg c \<noteq> 0 then Blocked AtWgWait c
      else (case conn_Close c of (err, c') \<Rightarrow> Returned err c'))"

definition Close :: "Client \<Rightarrow> error option outcome" where
  "Close c =
     (if done_closed c then Panicked ''close of closed channel'' c
      else Close_from_Wait (c\<lparr>done_closed := True\<rparr>))"

definition wg_Done :: "Client \<Rightarrow> unit outcome" where
  "wg_Done c =
     (if wg c = 0 then Panicked ''sync: negative WaitGroup counter'' c
      else Returned () (c\<lparr>wg := wg c - 1\<rparr>))"

subsection \<open>The dispatcher\<close>

definition handleFatalError :: "Client \<Rightarrow> error \<Rightarrow> unit outcome" where
  "handleFatalError c err =
     (case Close (Printf c (''Fatal client error: '' @ Error_text err @ [CHR 0x0A])) of
        Returned r c' \<Rightarrow> Returned () c'
      | Blocked p c' \<Rightarrow> Blocked p c'
      | Panicked m c' \<Rightarrow> Panicked m c')"

definition handleValueResponse :: "Client \<Rightarrow> string \<Rightarrow> unit outcome" where
  "handleValueResponse c message =
     (if length message > 1 \<and> drop 1 message = User (Auth (config c)) then Returned () c
      else if length message < 4
      then handleFatalError c (Errorf (''invalid value response format: '' @ message))
      else (let slotStr = take 3 (drop 1 message) in
            case Atoi slotStr of
              Inl err \<Rightarrow>
                handleFatalError c (Errorf (''invalid slot number in response: '' @ slotStr))
            | Inr slot \<Rightarrow>
                (let data = drop 4 message in
                 case map_of (pendingRequests c) slot of
                   Some ch \<Rightarrow> chan_send c ch \<lparr>Data = data, Error = None\<rparr>
                 | None \<Rightarrow>
                     handleFatalError c
                       (Errorf (''received response for slot '' @ fmt_d slot @
                                '' with no pending request'')))))"

text \<open>
  The loop of \<open>handleErrorResponse\<close> over the entries of the map: send the response to
  the entry's channel, then delete the entry.
\<close>

fun forward_all :: "Client \<Rightarrow> (int \<times> nat) list \<Rightarrow> Response \<Rightarrow> unit outcome" where
  "forward_all c [] r = Returned () c"
| "forward_all c ((slot, ch) # entries) r =
     (case chan_send c ch r of
        Returned u c' \<Rightarrow>
          forward_all (c'\<lparr>pendingRequests := AList.delete slot (pendingRequests c')\<rparr>) entries r
      | Blocked p c' \<Rightarrow> Blocked p c'
      | Panicked m c' \<Rightarrow> Panicked m c')"

definition handleErrorResponse :: "Client \<Rightarrow> string \<Rightarrow> unit outcome" where
  "handleErrorResponse c message =
     (if length message < 4
      then handleFatalError c (Errorf (''invalid error response format: '' @ message))
      else (let errorCode = take 3 (drop 1 message) in
            if errorCode = ''004'' \<or> errorCode = ''005''
            then Returned () (Printf c (''Authentication error: '' @ errorCode @ [CHR 0x0A]))
            else forward_all c (pendingRequests c)
                   \<lparr>Data = [], Error = Some (GhotiErr (NewGhotiError errorCode))\<rparr>))"

definition handleBroadcastMessage :: "Client \<Rightarrow> string \<Rightarrow> unit outcome" where
  "handleBroadcastMessage c message =
     (if length message < 4
      then handleFatalError c (Errorf (''invalid broadcast message format: '' @ message))
      else (let slotStr = take 3 (drop 1 message) in
            case Atoi slotStr of
              Inl err \<Rightarrow>
                handleFatalError c (Errorf (''invalid slot number in broadcast: '' @ slotStr))
            | Inr slot \<Rightarrow>
                (let data = drop 4 message in
                 if broadcastHandler c
                 then Returned () (c\<lparr>handler_calls := handler_calls c @ [(slot, data)]\<rparr>)
                 else Returned () c)))"

definition processMessage :: "Client \<Rightarrow> string \<Rightarrow> unit outcome" where
  "processMessage c message =
     (if length message = 0 then Returned () c
      else (let messageType = hd message in
            if messageType = CHR ''v'' then handleValueResponse c message
            else if messageType = CHR ''e'' then handleErrorResponse c message
            else if messageType = CHR ''a'' then handleBroadcastMessage c message
            else handleFatalError c (Errorf (''unknown message type: '' @ fmt_c messageType))))"

subsection \<open>The background receiver\<close>

text \<open>
  What \<open>c.reader.ReadString('\n')\<close> returns, one value for each call: a line with its
  terminator, or an error.
\<close>

datatype read_result = ReadLine string | ReadErr error

text \<open>
  \<open>listen\<close> over the results of its reads. The flag tells where the goroutine is:
  \<open>False\<close> at the top of the loop, where \<open>done\<close> is looked at, \<open>True\<close> inside
  \<open>ReadString\<close>, where it is not. With no result left the goroutine stays in
  \<open>ReadString\<close>. The deferred \<open>wg.Done()\<close> runs when \<open>listen\<close> returns.
\<close>

fun listen :: "bool \<Rightarrow> Client \<Rightarrow> read_result list \<Rightarrow> unit outcome" where
  "listen in_read c results =
     (if \<not> in_read \<and> done_closed c then wg_Done c
      else (case results of
              [] \<Rightarrow> Blocked AtReadString c
            | ReadErr err # rest \<Rightarrow>
                (case handleFatalError c (Errorf_w ''connection error: '' err) of
                   Returned u c' \<Rightarrow> wg_Done c'
                 | Blocked p c' \<Rightarrow> Blocked p c'
                 | Panicked m c' \<Rightarrow> Panicked m c')
            | ReadLine line0 # rest \<Rightarrow>
                (let line = TrimSuffix_nl line0 in
                 if length line = 0 then listen False c rest
                 else (case processMessage c line of
                         Returned u c' \<Rightarrow> listen False c' rest
                       | Blocked p c' \<Rightarrow> Blocked p c'
                       | Panicked m c' \<Rightarrow> Panicked m c'))))"

declare listen.simps [simp del]

subsection \<open>The slot operations\<close>

text \<open>
  An operation runs in two parts, with the other goroutines acting in between: up to
  and including the send (\<open>Early\<close>: it has returned, its deferred deregistration done
  where it was installed; \<open>Sent ch\<close>: it goes on to the select, waiting on its channel
  \<open>ch\<close>), and the select with what follows it.
\<close>

datatype 'a started = Early 'a Client | Sent nat Client

text \<open>\<open>make(chan Response, 1)\<close> and the registration \<open>c.pendingRequests[slot] = responseCh\<close>.\<close>

definition register :: "Client \<Rightarrow> int \<Rightarrow> nat \<times> Client" where
  "register c slot =
     (let ch = next_chan c
      in (ch, c\<lparr>chans := (chans c)(ch := []),
                next_chan := Suc ch,
                pendingRequests := AList.update slot ch (pendingRequests c)\<rparr>))"

text \<open>The deferred \<open>delete(c.pendingRequests, slot)\<close>.\<close>

definition deregister :: "int \<Rightarrow> Client \<Rightarrow> Client" where
  "deregister slot c = c\<lparr>pendingRequests := AList.delete slot (pendingRequests c)\<rparr>"

text \<open>
  The \<open>select\<close> of the three operations, its cases in the order of the source: a value
  in the response channel, the timer of \<open>time.After(5 * time.Second)\<close>, the closed
  channel \<open>done\<close>. \<open>waited\<close> is the time since the select began, in nanoseconds.
  Of the cases that can proceed Go takes one at random: \<open>seed\<close> is that choice.
  With no such case the goroutine waits.
\<close>

datatype wait_event = Resolution | Timeout | Shutdown

definition time_Second :: nat where
  "time_Second = 1000000000"

definition ready_cases :: "Client \<Rightarrow> nat \<Rightarrow> nat \<Rightarrow> wait_event list" where
  "ready_cases c ch waited =
     (if chans c ch \<noteq> [] then [Resolution] else []) @
     (if 5 * time_Second \<le> waited then [Timeout] else []) @
     (if done_closed c then [Shutdown] else [])"

definition select_case :: "Client \<Rightarrow> nat \<Rightarrow> nat \<Rightarrow> nat \<Rightarrow> wait_event option" where
  "select_case c ch waited seed =
     (let ready = ready_cases c ch waited
      in if ready = [] then None else Some (ready ! (seed mod length ready)))"

definition Read_start :: "Client \<Rightarrow> int \<Rightarrow> (string \<times> error option) started" where
  "Read_start c slot =
     (if slot < 0 \<or> slot > 999
      then Early ([], Some (Errorf (''invalid slot number: '' @ fmt_d slot))) c
      else (case register c slot of (responseCh, c1) \<Rightarrow>
             (case conn_Write c1 (''r'' @ fmt_03d slot @ [CHR 0x0A]) of
                (Some err, c2) \<Rightarrow>
                  Early ([], Some (Errorf_w ''failed to send read command: '' err))
                        (deregister slot c2)
              | (None, c2) \<Rightarrow> Sent responseCh c2)))"

definition Read_wait ::
  "Client \<Rightarrow> int \<Rightarrow> nat \<Rightarrow> nat \<Rightarrow> nat \<Rightarrow> (string \<times> error option) outcome" where
  "Read_wait c slot responseCh waited seed =
     (case select_case c responseCh waited seed of
        None \<Rightarrow> Blocked AtSelect c
      | Some Resolution \<Rightarrow>
          (case chans c responseCh of
             [] \<Rightarrow> Blocked AtSelect c
           | response # rest \<Rightarrow>
               (let c1 = c\<lparr>chans := (chans c)(responseCh := rest)\<rparr> in
                case Error response of
                  Some err \<Rightarrow> Returned ([], Some err) (deregister slot c1)
                | None \<Rightarrow> Returned (Data response, None) (deregister slot c1)))
      | Some Timeout \<Rightarrow>
          Returned ([], Some (Errorf ''timeout waiting for response'')) (deregister slot c)
      | Some Shutdown \<Rightarrow>
          Returned ([], Some (Errorf ''client closed'')) (deregister slot c))"

text \<open>
  The whole call: \<open>others\<close> is what the other goroutines do to the shared state between
  the send and the moment the select is decided.
\<close>

definition Read ::
  "Client \<Rightarrow> int \<Rightarrow> (Client \<Rightarrow> Client) \<Rightarrow> nat \<Rightarrow> nat \<Rightarrow> (string \<times> error option) outcome" where
  "Read c slot others waited seed =
     (case Read_start c slot of
        Early r c' \<Rightarrow> Returned r c'
      | Sent responseCh c1 \<Rightarrow> Read_wait (others c1) slot responseCh waited seed)"

definition Write_start :: "Client \<Rightarrow> int \<Rightarrow> string \<Rightarrow> (error option) started" where
  "Write_start c slot data =
     (if slot < 0 \<or> slot > 999
      then Early (Some (Errorf (''invalid slot number: '' @ fmt_d slot))) c
      else if length data > 36
      then Early (Some (Errorf ''data too long: maximum length is 36 characters'')) c
      else (case register c slot of (responseCh, c1) \<Rightarrow>
             (case conn_Write c1 (''w'' @ fmt_03d slot @ data @ [CHR 0x0A]) of
                (Some err, c2) \<Rightarrow>
                  Early (Some (Errorf_w ''failed to send write command: '' err))
                        (deregister slot c2)
              | (None, c2) \<Rightarrow> Sent responseCh c2)))"

definition Write_wait ::
  "Client \<Rightarrow> int \<Rightarrow> nat \<Rightarrow> nat \<Rightarrow> nat \<Rightarrow> (error option) outcome" where
  "Write_wait c slot responseCh waited seed =
     (case select_case c responseCh waited seed of
        None \<Rightarrow> Blocked AtSelect c
      | Some Resolution \<Rightarrow>
          (case chans c responseCh of
             [] \<Rightarrow> Blocked AtSelect c
           | response # rest \<Rightarrow>
               Returned (Error response)
                 (deregister slot (c\<lparr>chans := (chans c)(responseCh := rest)\<rparr>)))
      | Some Timeout \<Rightarrow>
          Returned (Some (Errorf ''timeout waiting for response'')) (deregister slot c)
      | Some Shutdown \<Rightarrow>
          Returned (Some (Errorf ''client closed'')) (deregister slot c))"

definition Write ::
  "Client \<Rightarrow> int \<Rightarrow> string \<Rightarrow> (Client \<Rightarrow> Client) \<Rightarrow> nat \<Rightarrow> nat \<Rightarrow> (error option) outcome" where
  "Write c slot data others waited seed =
     (case Write_start c slot data of
        Early r c' \<Rightarrow> Returned r c'
      | Sent responseCh c1 \<Rightarrow> Write_wait (others c1) slot responseCh waited seed)"

definition Broadcast_start ::
  "Client \<Rightarrow> int \<Rightarrow> string \<Rightarrow> (int \<times> int \<times> int \<times> error option) started" where
  "Broadcast_start c slot data =
     (if slot < 0 \<or> slot > 999
      then Early (0, 0, 0, Some (Errorf (''invalid slot number: '' @ fmt_d slot))) c
      else if length data > 36
      then Early (0, 0, 0, Some (Errorf ''data too long: maximum length is 36 characters'')) c
      else (case register c slot of (responseCh, c1) \<Rightarrow>
             (case conn_Write c1 (''w'' @ fmt_03d slot @ data @ [CHR 0x0A]) of
                (Some err, c2) \<Rightarrow>
                  Early (0, 0, 0, Some (Errorf_w ''failed to send broadcast command: '' err))
                        (deregister slot c2)
              | (None, c2) \<Rightarrow> Sent responseCh c2)))"

text \<open>
  What \<open>Broadcast\<close> returns for a response received from its channel: the error of
  the response if it has one, else its data parsed as \<open>a/b/c\<close>.
\<close>

definition Broadcast_result :: "Response \<Rightarrow> int \<times> int \<times> int \<times> error option" where
  "Broadcast_result response =
     (case Error response of
        Some err \<Rightarrow> (0, 0, 0, Some err)
      | None \<Rightarrow>
          (case Split (Data response) CHR ''/'' of
             [p0, p1, p2] \<Rightarrow>
               (case Atoi p0 of
                  Inl err \<Rightarrow> (0, 0, 0, Some (Errorf (''invalid received count: '' @ p0)))
                | Inr received \<Rightarrow>
                    (case Atoi p1 of
                       Inl err \<Rightarrow> (0, 0, 0, Some (Errorf (''invalid total count: '' @ p1)))
                     | Inr total' \<Rightarrow>
                         (case Atoi p2 of
                            Inl err \<Rightarrow>
                              (0, 0, 0, Some (Errorf (''invalid failed count: '' @ p2)))
                          | Inr failed \<Rightarrow> (received, total', failed, None))))
           | parts \<Rightarrow>
               (0, 0, 0,
                Some (Errorf (''invalid broadcast response format: '' @ Data response)))))"

definition Broadcast_wait ::
  "Client \<Rightarrow> int \<Rightarrow> nat \<Rightarrow> nat \<Rightarrow> nat \<Rightarrow> (int \<times> int \<times> int \<times> error option) outcome" where
  "Broadcast_wait c slot responseCh waited seed =
     (case select_case c responseCh waited seed of
        None \<Rightarrow> Blocked AtSelect c
      | Some Resolution \<Rightarrow>
          (case chans c responseCh of
             [] \<Rightarrow> Blocked AtSelect c
           | response # rest \<Rightarrow>
               Returned (Broadcast_result response)
                 (deregister slot (c\<lparr>chans := (chans c)(responseCh := rest)\<rparr>)))
      | Some Timeout \<Rightarrow>
          Returned (0, 0, 0, Some (Errorf ''timeout waiting for response''))
                   (deregister slot c)
      | Some Shutdown \<Rightarrow>
          Returned (0, 0, 0, Some (Errorf ''client closed'')) (deregister slot c))"

definition Broadcast ::
  "Client \<Rightarrow> int \<Rightarrow> string \<Rightarrow> (Client \<Rightarrow> Client) \<Rightarrow> nat \<Rightarrow> nat \<Rightarrow>
     (int \<times> int \<times> int \<times> error option) outcome" where
  "Broadcast c slot data others waited seed =
     (case Broadcast_start c slot data of
        Early r c' \<Rightarrow> Returned r c'
      | Sent responseCh c1 \<Rightarrow> Broadcast_wait (others c1) slot responseCh waited seed)"

subsection \<open>A client to run the model on\<close>

definition demo_config :: Config where
  "demo_config =
     \<lparr>Protocol = ''tcp'', Server = ''localhost:9090'', ReadBufferSize = 1024,
      Auth = \<lparr>User = ''alice'', Pass = ''secret''\<rparr>\<rparr>"

text \<open>The client that \<open>NewClient demo_config\<close> gives when the dial succeeds.\<close>

definition demo_client :: Client where
  "demo_client =
     \<lparr>config = demo_config,
      conn = \<lparr>conn_closed = False, conn_fault = None, conn_written = []\<rparr>,
      pendingRequests = [],
      chans = (\<lambda>ch. []),
      next_chan = 0,
      broadcastHandler = False,
      handler_calls = [],
      done_closed = False,
      wg = 1,
      stdout = []\<rparr>"

text \<open>\<open>demo_client\<close> after \<open>Read\<close> on slot 5 has registered and sent its command.\<close>

definition demo_pending :: Client where
  "demo_pending =
     demo_client\<lparr>pendingRequests := [(5, 0)], next_chan := 1,
                 conn := \<lparr>conn_closed = False, conn_fault = None,
                          conn_written = [''r005'' @ [CHR 0x0A]]\<rparr>\<rparr>"

text \<open>
  The state in which the loop of \<open>handleErrorResponse\<close> over \<open>entries\<close> ends when no
  send has to wait: each channel of \<open>entries\<close> holds the response, each slot of
  \<open>entries\<close> is deleted.
\<close>

definition resolve_all :: "Client \<Rightarrow> (int \<times> nat) list \<Rightarrow> Response \<Rightarrow> Client" where
  "resolve_all c entries r =
     c\<lparr>chans := (\<lambda>ch. if ch \<in> snd ` set entries then [r] else chans c ch),
       pendingRequests := filter (\<lambda>(k, v). k \<notin> fst ` set entries) (pendingRequests c)\<rparr>"

text \<open>
  \<open>demo_client\<close> after \<open>Close\<close> has returned: \<open>done\<close> closed, the listener gone,
  the connection closed.
\<close>

definition demo_closed :: Client where
  "demo_closed =
     demo_client\<lparr>done_closed := True, wg := 0,
                 conn := \<lparr>conn_closed = True, conn_fault = None, conn_written = []\<rparr>\<rparr>"

section \<open>Properties\<close>

subsection \<open>Basic facts\<close>

lemma NewClient_demo: "NewClient demo_config None = Inr demo_client"
  by (simp add: NewClient_def demo_client_def)


lemma Broadcast_wait_Resolution:
  assumes "chans c ch = response # rest" "select_case c ch waited seed = Some Resolution"
  shows "Broadcast_wait c slot ch waited seed =
           Returned (Broadcast_result response)
             (deregister slot (c\<lparr>chans := (chans c)(ch := rest)\<rparr>))"
  using assms by (simp add: Broadcast_wait_def)

lemma Broadcast_result_wrong_count:
  "length (Split d CHR ''/'') \<noteq> 3 \<Longrightarrow>
   Broadcast_result \<lparr>Data = d, Error = None\<rparr> =
     (0, 0, 0, Some (Errorf (''invalid broadcast response format: '' @ d)))"
  by (auto simp add: Broadcast_result_def split: list.splits)

lemma Broadcast_result_parsed:
  "Split d CHR ''/'' = [p0, p1, p2] \<Longrightarrow> Atoi p0 = Inr a \<Longrightarrow> Atoi p1 = Inr b \<Longrightarrow>
   Atoi p2 = Inr e \<Longrightarrow> Broadcast_result \<lparr>Data = d, Error = None\<rparr> = (a, b, e, None)"
  by (simp add: Broadcast_result_def)

lemma Broadcast_result_bad_field:
  "Split d CHR ''/'' = [p0, p1, p2] \<Longrightarrow> \<exists>p\<in>set [p0, p1, p2]. \<forall>n. Atoi p \<noteq> Inr n \<Longrightarrow>
   \<exists>m. Broadcast_result \<lparr>Data = d, Error = None\<rparr> = (0, 0, 0, Some (Errorf m))"
  by (auto simp add: Broadcast_result_def split: sum.splits)

lemma Broadcast_result_3_5_1:
  "Broadcast_result \<lparr>Data = ''3/5/1'', Error = None\<rparr> = (3, 5, 1, None)"
  by (simp add: Broadcast_result_def Atoi_def Let_def is_digit_def digit_val_def)

lemma Broadcast_result_3_5:
  "Broadcast_result \<lparr>Data = ''3/5'', Error = None\<rparr> =
     (0, 0, 0, Some (Errorf ''invalid broadcast response format: 3/5''))"
  by (simp add: Broadcast_result_def)

lemma Broadcast_result_x_5_1:
  "Broadcast_result \<lparr>Data = ''x/5/1'', Error = None\<rparr> =
     (0, 0, 0, Some (Errorf ''invalid received count: x''))"
  by (simp add: Broadcast_result_def Atoi_def Let_def is_digit_def digit_val_def)

subsection \<open>Validation of the arguments\<close>

text \<open>
  C5. For a slot below 0 or above 999, \<open>Read\<close>, \<open>Write\<close> and \<open>Broadcast\<close> return the
  validation error and leave the whole client state as it was: no frame is written to
  the connection and nothing is registered, whatever the other goroutines or the clock
  do. For data longer than 36 bytes, \<open>Write\<close> and \<open>Broadcast\<close> return a validation
  error (the one for the slot if the slot is out of range too), again with the state
  unchanged.
\<close>

theorem invalid_arguments_rejected_before_any_effect:
  "(slot < 0 \<or> slot > 999 \<longrightarrow>
      Read c slot others waited seed =
        Returned ([], Some (Errorf (''invalid slot number: '' @ fmt_d slot))) c \<and>
      Write c slot d others waited seed =
        Returned (Some (Errorf (''invalid slot number: '' @ fmt_d slot))) c \<and>
      Broadcast c slot d others waited seed =
        Returned (0, 0, 0, Some (Errorf (''invalid slot number: '' @ fmt_d slot))) c) \<and>
   (length d > 36 \<longrightarrow>
      Write c slot d others waited seed =
        Returned (Some (Errorf (if slot < 0 \<or> slot > 999
                                then ''invalid slot number: '' @ fmt_d slot
                                else ''data too long: maximum length is 36 characters''))) c \<and>
      Broadcast c slot d others waited seed =
        Returned (0, 0, 0,
                  Some (Errorf (if slot < 0 \<or> slot > 999
                                then ''invalid slot number: '' @ fmt_d slot
                                else ''data too long: maximum length is 36 characters''))) c)"
  by (simp add: Read_def Read_start_def Write_def Write_start_def Broadcast_def
      Broadcast_start_def)

theorem invalid_arguments_rejected_witness:
  "Read demo_client (- 1) id 0 0 =
     Returned ([], Some (Errorf ''invalid slot number: -1'')) demo_client \<and>
   Write demo_client 1000 ''abc'' id 0 0 =
     Returned (Some (Errorf ''invalid slot number: 1000'')) demo_client \<and>
   Broadcast demo_client 5 (replicate 37 CHR ''x'') id 0 0 =
     Returned (0, 0, 0, Some (Errorf ''data too long: maximum length is 36 characters''))
       demo_client"
  using invalid_arguments_rejected_before_any_effect [of "- 1" demo_client id 0 0 "''abc''"]
    invalid_arguments_rejected_before_any_effect [of 1000 demo_client id 0 0 "''abc''"]
    invalid_arguments_rejected_before_any_effect
      [of 5 demo_client id 0 0 "replicate 37 CHR ''x''"]
  by (simp add: fmt_d_def digits.simps)

subsection \<open>The loop over the registry\<close>

lemma delete_filter: "AList.delete k al = filter (\<lambda>(k', v). k' \<noteq> k) al"
  by (induction al) (auto simp: AList.delete_eq)

lemma forward_all_ok:
  "distinct (map snd entries) \<Longrightarrow> \<forall>(s, ch)\<in>set entries. chans c ch = [] \<Longrightarrow>
   forward_all c entries r = Returned () (resolve_all c entries r)"
proof (induction entries arbitrary: c)
  case Nil
  show ?case by (simp add: resolve_all_def)
next
  case (Cons e entries)
  obtain slot ch where e: "e = (slot, ch)" by (cases e)
  let ?c' = "c\<lparr>chans := (chans c)(ch := [r]), pendingRequests := AList.delete slot (pendingRequests c)\<rparr>"
  from Cons.prems e have empty: "chans c ch = []" and notin: "ch \<notin> snd ` set entries"
    and dist: "distinct (map snd entries)" by auto
  have send: "chan_send c ch r = Returned () (c\<lparr>chans := (chans c)(ch := [r])\<rparr>)"
    using empty by (simp add: chan_send_def)
  have rest: "\<forall>(s, ch')\<in>set entries. chans ?c' ch' = []"
    using Cons.prems(2) notin by (auto simp: rev_image_eqI)
  have "forward_all c (e # entries) r = forward_all ?c' entries r"
    using send e by simp
  also have "\<dots> = Returned () (resolve_all ?c' entries r)"
    using dist rest by (rule Cons.IH)
  also have "resolve_all ?c' entries r = resolve_all c (e # entries) r"
  proof -
    have ch_eq: "(\<lambda>x. if x \<in> snd ` set entries then [r] else chans ?c' x) =
                 (\<lambda>x. if x \<in> snd ` set (e # entries) then [r] else chans c x)"
      using e by (auto simp: fun_eq_iff)
    have p_eq: "filter (\<lambda>(k, v). k \<notin> fst ` set entries) (pendingRequests ?c') =
                filter (\<lambda>(k, v). k \<notin> fst ` set (e # entries)) (pendingRequests c)"
      using e by (auto simp: delete_filter split_def intro!: filter_cong)
    show ?thesis
      unfolding resolve_all_def ch_eq p_eq by simp
  qed
  finally show ?case .
qed

lemma resolve_all_pending: "pendingRequests (resolve_all c (pendingRequests c) r) = []"
  by (auto simp: resolve_all_def filter_empty_conv rev_image_eqI)





lemma processMessage_error_code:
  assumes "message = CHR ''e'' # code @ trailing" "length code = 3"
  shows "processMessage c message =
     (if code = ''004'' \<or> code = ''005''
      then Returned () (Printf c (''Authentication error: '' @ code @ [CHR 0x0A]))
      else forward_all c (pendingRequests c) \<lparr>Data = [], Error = Some (GhotiErr (NewGhotiError code))\<rparr>)"
  using assms by (simp add: processMessage_def handleErrorResponse_def Let_def)

lemma resolve_all_registry:
  "resolve_all c (pendingRequests c) r =
     c\<lparr>chans := (\<lambda>ch. if ch \<in> snd ` set (pendingRequests c) then [r] else chans c ch),
       pendingRequests := []\<rparr>"
  using resolve_all_pending [of c r] by (simp add: resolve_all_def)

subsection \<open>Error frames\<close>

text \<open>
  C2, as the code has it. An error frame is \<open>e\<close>, a code of three characters, and
  whatever follows. For the codes 004 and 005 the dispatcher only prints the code: the
  state changes in \<open>stdout\<close> alone, so the registry and every channel are as before.
  For every other code, when the registered channels are distinct and none of them still
  holds an earlier response, each of them receives the same response, with the error
  \<open>NewGhotiError code\<close>, and the registry is left empty.
\<close>

theorem error_frame_routing:
  assumes "message = CHR ''e'' # code @ trailing" and "length code = 3"
  shows "(code = ''004'' \<or> code = ''005'' \<longrightarrow>
            processMessage c message =
              Returned ()
                (c\<lparr>stdout := stdout c @ [''Authentication error: '' @ code @ [CHR 0x0A]]\<rparr>)) \<and>
         (code \<noteq> ''004'' \<and> code \<noteq> ''005'' \<and> distinct (map snd (pendingRequests c)) \<and>
          (\<forall>(s, ch)\<in>set (pendingRequests c). chans c ch = []) \<longrightarrow>
            processMessage c message =
              Returned ()
                (c\<lparr>chans :=
                     (\<lambda>ch. if ch \<in> snd ` set (pendingRequests c)
                           then [\<lparr>Data = [], Error = Some (GhotiErr (NewGhotiError code))\<rparr>]
                           else chans c ch),
                   pendingRequests := []\<rparr>))"
  using processMessage_error_code [OF assms, of c]
    forward_all_ok [of "pendingRequests c" c
      "\<lparr>Data = [], Error = Some (GhotiErr (NewGhotiError code))\<rparr>"]
  by (simp add: Printf_def resolve_all_registry)

theorem error_frame_routing_witness:
  "processMessage demo_pending ''e004'' =
     Returned () (demo_pending\<lparr>stdout := [''Authentication error: 004'' @ [CHR 0x0A]]\<rparr>) \<and>
   processMessage demo_pending ''e007'' =
     Returned ()
       (demo_pending
          \<lparr>chans := (\<lambda>ch. if ch = 0
                          then [\<lparr>Data = [],
                                 Error = Some (GhotiErr \<lparr>Code = ''007'', Message = ''Slot locked''\<rparr>)\<rparr>]
                          else []),
            pendingRequests := []\<rparr>)"
  using error_frame_routing [of "''e004''" "''004''" "[]" demo_pending]
    error_frame_routing [of "''e007''" "''007''" "[]" demo_pending]
  by (simp add: demo_pending_def demo_client_def NewGhotiError_def cong: if_cong)

subsection \<open>Value frames\<close>

lemma handleFatalError_blocks:
  "\<not> done_closed c \<Longrightarrow> wg c \<noteq> 0 \<Longrightarrow>
   handleFatalError c err =
     Blocked AtWgWait
       (c\<lparr>stdout := stdout c @ [''Fatal client error: '' @ Error_text err @ [CHR 0x0A]],
          done_closed := True\<rparr>)"
  by (simp add: handleFatalError_def Close_def Close_from_Wait_def Printf_def)

lemma handleFatalError_state:
  "\<not> done_closed c \<Longrightarrow>
   done_closed (state_of (handleFatalError c err)) \<and>
   stdout (state_of (handleFatalError c err)) =
     stdout c @ [''Fatal client error: '' @ Error_text err @ [CHR 0x0A]]"
  by (simp add: handleFatalError_def Close_def Close_from_Wait_def Printf_def conn_Close_def)

lemma processMessage_value:
  assumes "4 \<le> length message" "hd message = CHR ''v''"
    "drop 1 message \<noteq> User (Auth (config c))" "Atoi (take 3 (drop 1 message)) = Inr slot"
  shows "processMessage c message =
     (case map_of (pendingRequests c) slot of
        Some ch \<Rightarrow> chan_send c ch \<lparr>Data = drop 4 message, Error = None\<rparr>
      | None \<Rightarrow>
          handleFatalError c
            (Errorf (''received response for slot '' @ fmt_d slot @ '' with no pending request'')))"
  using assms by (auto simp add: processMessage_def handleValueResponse_def Let_def)

lemma select_case_only_Resolution:
  "chans c ch \<noteq> [] \<Longrightarrow> waited < 5 * time_Second \<Longrightarrow> \<not> done_closed c \<Longrightarrow>
   select_case c ch waited seed = Some Resolution"
  by (simp add: select_case_def ready_cases_def)

lemma Read_wait_Resolution:
  assumes "chans c ch = response # rest" "select_case c ch waited seed = Some Resolution"
  shows "Read_wait c slot ch waited seed =
           Returned (case Error response of Some err \<Rightarrow> ([], Some err)
                     | None \<Rightarrow> (Data response, None))
             (deregister slot (c\<lparr>chans := (chans c)(ch := rest)\<rparr>))"
  using assms by (simp add: Read_wait_def split: option.splits)

lemma Atoi_005: "Atoi ''005'' = Inr 5"
  by (simp add: Atoi_def Let_def is_digit_def digit_val_def)

lemma fmt_d_5: "fmt_d 5 = ''5''"
  by (simp add: fmt_d_def digits.simps)

text \<open>
  C1, as the code has it. A value frame that is not the authentication echo and whose
  three characters after the tag parse to \<open>slot\<close>: if the slot is registered, the
  dispatcher sends the payload (the text after the tag and the three characters) with no
  error to the registered channel, the send waiting while that one-place channel is
  still full, and the waiter's select then returns the payload with a nil error and
  deregisters the slot; if the slot is not registered, the frame goes to
  \<open>handleFatalError\<close>: it is printed as a fatal client error and \<open>Close\<close> is called,
  which closes the channel \<open>done\<close>.
\<close>

theorem value_frame_routing:
  assumes "4 \<le> length message" and "hd message = CHR ''v''"
    and "drop 1 message \<noteq> User (Auth (config c))"
    and "Atoi (take 3 (drop 1 message)) = Inr slot"
  shows "(\<forall>ch. map_of (pendingRequests c) slot = Some ch \<longrightarrow>
            processMessage c message =
              (if chans c ch = []
               then Returned ()
                      (c\<lparr>chans := (chans c)(ch := [\<lparr>Data = drop 4 message, Error = None\<rparr>])\<rparr>)
               else Blocked (AtChanSend ch) c)) \<and>
         (\<forall>ch waited seed. waited < 5 * time_Second \<and> \<not> done_closed c \<longrightarrow>
            Read_wait (c\<lparr>chans := (chans c)(ch := [\<lparr>Data = drop 4 message, Error = None\<rparr>])\<rparr>)
                slot ch waited seed =
              Returned (drop 4 message, None)
                (deregister slot (c\<lparr>chans := (chans c)(ch := [])\<rparr>))) \<and>
         (map_of (pendingRequests c) slot = None \<and> \<not> done_closed c \<longrightarrow>
            done_closed (state_of (processMessage c message)) \<and>
            stdout (state_of (processMessage c message)) =
              stdout c @ [''Fatal client error: received response for slot '' @ fmt_d slot @
                          '' with no pending request'' @ [CHR 0x0A]])"
proof (intro conjI allI impI)
  fix ch assume "map_of (pendingRequests c) slot = Some ch"
  then show "processMessage c message =
              (if chans c ch = []
               then Returned ()
                      (c\<lparr>chans := (chans c)(ch := [\<lparr>Data = drop 4 message, Error = None\<rparr>])\<rparr>)
               else Blocked (AtChanSend ch) c)"
    using processMessage_value [OF assms] by (simp add: chan_send_def)
next
  fix ch waited seed
  let ?c' = "c\<lparr>chans := (chans c)(ch := [\<lparr>Data = drop 4 message, Error = None\<rparr>])\<rparr>"
  assume a: "waited < 5 * time_Second \<and> \<not> done_closed c"
  have ch: "chans ?c' ch = \<lparr>Data = drop 4 message, Error = None\<rparr> # []" by simp
  have sel: "select_case ?c' ch waited seed = Some Resolution"
    using a by (simp add: select_case_only_Resolution)
  show "Read_wait ?c' slot ch waited seed =
          Returned (drop 4 message, None) (deregister slot (c\<lparr>chans := (chans c)(ch := [])\<rparr>))"
    using Read_wait_Resolution [OF ch sel, of slot] by simp
next
  assume a: "map_of (pendingRequests c) slot = None \<and> \<not> done_closed c"
  then show "done_closed (state_of (processMessage c message))"
    using processMessage_value [OF assms] handleFatalError_state by simp
  from a show "stdout (state_of (processMessage c message)) =
              stdout c @ [''Fatal client error: received response for slot '' @ fmt_d slot @
                          '' with no pending request'' @ [CHR 0x0A]]"
    using processMessage_value [OF assms] handleFatalError_state by simp
qed

theorem value_frame_routing_witness:
  "processMessage demo_pending ''v005abc'' =
     Returned () (demo_pending\<lparr>chans := (chans demo_pending)(0 := [\<lparr>Data = ''abc'', Error = None\<rparr>])\<rparr>) \<and>
   Read_wait (demo_pending\<lparr>chans := (chans demo_pending)(0 := [\<lparr>Data = ''abc'', Error = None\<rparr>])\<rparr>) 5 0 0 0 =
     Returned (''abc'', None) (deregister 5 (demo_pending\<lparr>chans := (chans demo_pending)(0 := [])\<rparr>)) \<and>
   done_closed (state_of (processMessage demo_client ''v005abc'')) \<and>
   stdout (state_of (processMessage demo_client ''v005abc'')) =
     [''Fatal client error: received response for slot 5 with no pending request'' @ [CHR 0x0A]]"
proof -
  have h: "4 \<le> length ''v005abc''" "hd ''v005abc'' = CHR ''v''"
    "drop 1 ''v005abc'' \<noteq> User (Auth (config demo_pending))"
    "drop 1 ''v005abc'' \<noteq> User (Auth (config demo_client))"
    "Atoi (take 3 (drop 1 ''v005abc'')) = Inr 5"
    by (simp_all add: demo_pending_def demo_client_def demo_config_def Atoi_005)
  show ?thesis
    using value_frame_routing [OF h(1,2,3,5)] value_frame_routing [OF h(1,2,4,5)]
    by (simp add: demo_pending_def demo_client_def time_Second_def fmt_d_5)
qed

text \<open>
  The frame \<open>v005abc\<close> with nothing registered on slot 5: the dispatcher closes
  \<open>done\<close> and stops in \<open>wg.Wait()\<close>, and the receiver does not dispatch the frame that
  comes next.
\<close>

theorem unrouted_value_frame_closes_done:
  "map_of (pendingRequests demo_client) 5 = None \<and> \<not> done_closed demo_client \<and>
   processMessage demo_client ''v005abc'' =
     Blocked AtWgWait
       (demo_client\<lparr>stdout := [''Fatal client error: received response for slot 5 with no pending request'' @ [CHR 0x0A]],
                    done_closed := True\<rparr>) \<and>
   listen False demo_client [ReadLine (''v005abc'' @ [CHR 0x0A]), ReadLine (''a001x'' @ [CHR 0x0A])] =
     Blocked AtWgWait
       (demo_client\<lparr>stdout := [''Fatal client error: received response for slot 5 with no pending request'' @ [CHR 0x0A]],
                    done_closed := True\<rparr>)"
proof -
  have p: "processMessage demo_client ''v005abc'' =
     Blocked AtWgWait
       (demo_client\<lparr>stdout := [''Fatal client error: received response for slot 5 with no pending request'' @ [CHR 0x0A]],
                    done_closed := True\<rparr>)"
    by (simp add: processMessage_def handleValueResponse_def Let_def Atoi_005 fmt_d_5
        handleFatalError_blocks demo_client_def demo_config_def)
  have d: "\<not> done_closed demo_client" "map_of (pendingRequests demo_client) 5 = None"
    by (simp_all add: demo_client_def)
  have t: "TrimSuffix_nl (''v005abc'' @ [CHR 0x0A]) = ''v005abc''"
    by (simp add: TrimSuffix_nl_def)
  show ?thesis
    using d p t by (simp add: listen.simps)
qed

subsection \<open>The authentication echo\<close>

text \<open>
  C6, as the code has it. The echo of the authentication carries no slot: a value frame
  is taken for it when the whole text after the tag \<open>v\<close> is not empty and equal to the
  configured user name. Such a frame is dropped: the dispatcher returns with the client
  state unchanged, so nothing is resolved, printed or closed.
\<close>

theorem auth_echo_is_the_frame_after_the_tag:
  assumes "1 < length message" and "hd message = CHR ''v''"
    and "drop 1 message = User (Auth (config c))"
  shows "processMessage c message = Returned () c"
  using assms by (auto simp add: processMessage_def handleValueResponse_def Let_def)

theorem auth_echo_witness:
  "1 < length ''valice'' \<and> hd ''valice'' = CHR ''v'' \<and>
   drop 1 ''valice'' = User (Auth (config demo_pending)) \<and>
   processMessage demo_pending ''valice'' = Returned () demo_pending"
proof -
  have h: "1 < length ''valice''" "hd ''valice'' = CHR ''v''"
    "drop 1 ''valice'' = User (Auth (config demo_pending))"
    by (simp_all add: demo_pending_def demo_client_def demo_config_def)
  show ?thesis
    by (intro conjI h auth_echo_is_the_frame_after_the_tag [OF h])
qed

text \<open>
  With the user \<open>alice\<close> and a request pending on slot 5, the frame \<open>v005alice\<close> has
  the payload \<open>alice\<close> after its slot; it is not dropped but delivered to the waiter
  of slot 5.
\<close>

theorem payload_equal_to_user_is_delivered:
  "drop 4 ''v005alice'' = User (Auth (config demo_pending)) \<and>
   map_of (pendingRequests demo_pending) 5 = Some 0 \<and>
   processMessage demo_pending ''v005alice'' =
     Returned ()
       (demo_pending\<lparr>chans := (chans demo_pending)(0 := [\<lparr>Data = ''alice'', Error = None\<rparr>])\<rparr>) \<and>
   processMessage demo_pending ''v005alice'' \<noteq> Returned () demo_pending"
proof -
  have p: "processMessage demo_pending ''v005alice'' =
     Returned ()
       (demo_pending\<lparr>chans := (chans demo_pending)(0 := [\<lparr>Data = ''alice'', Error = None\<rparr>])\<rparr>)"
    by (simp add: processMessage_def handleValueResponse_def Let_def Atoi_005 chan_send_def
        demo_pending_def demo_client_def demo_config_def)
  have ne: "demo_pending\<lparr>chans := (chans demo_pending)(0 := [\<lparr>Data = ''alice'', Error = None\<rparr>])\<rparr>
        \<noteq> demo_pending"
  proof
    assume "demo_pending\<lparr>chans := (chans demo_pending)(0 := [\<lparr>Data = ''alice'', Error = None\<rparr>])\<rparr>
        = demo_pending"
    then have "chans (demo_pending\<lparr>chans := (chans demo_pending)(0 := [\<lparr>Data = ''alice'', Error = None\<rparr>])\<rparr>) 0
        = chans demo_pending 0" by simp
    then show False by (simp add: demo_pending_def demo_client_def)
  qed
  show ?thesis
    using p ne by (simp add: demo_pending_def demo_client_def demo_config_def)
qed

subsection \<open>Unknown tags\<close>

text \<open>
  C9 at the frame \<open>x123\<close>, received while \<open>Read\<close> on slot 5 waits. The error is
  printed and \<open>done\<close> is closed, but \<open>Close\<close> runs in the receiver's own goroutine:
  its \<open>wg.Wait()\<close> waits for the \<open>wg.Done()\<close> that the receiver defers to its own
  return, so \<open>c.conn.Close()\<close> is never reached and the connection stays open. The
  waiting \<open>Read\<close> returns the error \<open>client closed\<close>; a later \<open>Write\<close> still
  writes its frame to the connection and then returns \<open>client closed\<close>.
\<close>

theorem unknown_tag_leaves_the_transport_open:
  "processMessage demo_pending ''x123'' =
     Blocked AtWgWait
       (demo_pending\<lparr>stdout := [''Fatal client error: unknown message type: x'' @ [CHR 0x0A]],
                     done_closed := True\<rparr>) \<and>
   \<not> conn_closed (conn (state_of (processMessage demo_pending ''x123''))) \<and>
   Read_wait (state_of (processMessage demo_pending ''x123'')) 5 0 0 0 =
     Returned ([], Some (Errorf ''client closed''))
       (deregister 5 (state_of (processMessage demo_pending ''x123''))) \<and>
   conn_written (conn (state_of (Write (state_of (processMessage demo_pending ''x123'')) 9 ''hi'' id 0 0))) =
     [''r005'' @ [CHR 0x0A], ''w009hi'' @ [CHR 0x0A]] \<and>
   Write (state_of (processMessage demo_pending ''x123'')) 9 ''hi'' id 0 0 =
     Returned (Some (Errorf ''client closed''))
       (state_of (Write (state_of (processMessage demo_pending ''x123'')) 9 ''hi'' id 0 0))"
proof -
  have p: "processMessage demo_pending ''x123'' =
     Blocked AtWgWait
       (demo_pending\<lparr>stdout := [''Fatal client error: unknown message type: x'' @ [CHR 0x0A]],
                     done_closed := True\<rparr>)"
    by (simp add: processMessage_def Let_def fmt_c_def handleFatalError_blocks
        demo_pending_def demo_client_def)
  have f: "fmt_03d 9 = ''009''"
    by (simp add: fmt_03d_def digits.simps numeral_3_eq_3)
  show ?thesis
    unfolding p
    by (simp add: demo_pending_def demo_client_def Read_wait_def select_case_def ready_cases_def
        time_Second_def Write_def Write_start_def Write_wait_def register_def conn_Write_def
        deregister_def f)
qed

subsection \<open>The wait of an operation\<close>

lemma map_of_deregister: "map_of (pendingRequests (deregister slot c)) slot = None"
  by (simp add: deregister_def AList.delete_conv')















subsection \<open>After Close\<close>

lemma Close_Returned:
  "Close c0 = Returned err c \<Longrightarrow>
   done_closed (c0\<lparr>done_closed := True\<rparr>) \<and>
   Close_from_Wait (c0\<lparr>done_closed := True\<rparr>) = Returned err c"
  by (simp add: Close_def split: if_splits)

lemma Close_from_Wait_closed:
  "Close_from_Wait c0 = Returned err c \<Longrightarrow> conn_closed (conn c)"
  by (auto simp: Close_from_Wait_def conn_Close_def split: if_splits)

text \<open>
  A run in which \<open>Close\<close> completes: the caller closes \<open>done\<close> and waits in
  \<open>wg.Wait()\<close>; the receiver, inside \<open>ReadString\<close>, gets one more frame, dispatches
  it, finds \<open>done\<close> closed and returns; \<open>Close\<close> goes on and closes the connection.
\<close>

lemma demo_Close_runs:
  "Close demo_client = Blocked AtWgWait (demo_client\<lparr>done_closed := True\<rparr>) \<and>
   listen True (demo_client\<lparr>done_closed := True\<rparr>) [ReadLine (''a001x'' @ [CHR 0x0A])] =
     Returned () (demo_client\<lparr>done_closed := True, wg := 0\<rparr>) \<and>
   done_closed (demo_client\<lparr>done_closed := True, wg := 0\<rparr>) \<and>
   Close_from_Wait (demo_client\<lparr>done_closed := True, wg := 0\<rparr>) = Returned None demo_closed"
proof -
  have a: "Atoi ''001'' = Inr 1"
    by (simp add: Atoi_def Let_def is_digit_def digit_val_def)
  have p: "processMessage (demo_client\<lparr>done_closed := True\<rparr>) ''a001x'' =
             Returned () (demo_client\<lparr>done_closed := True\<rparr>)"
    by (simp add: processMessage_def handleBroadcastMessage_def Let_def a demo_client_def)
  have t: "TrimSuffix_nl (''a001x'' @ [CHR 0x0A]) = ''a001x''"
    by (simp add: TrimSuffix_nl_def)
  have l: "listen True (demo_client\<lparr>done_closed := True\<rparr>) [ReadLine (''a001x'' @ [CHR 0x0A])] =
     Returned () (demo_client\<lparr>done_closed := True, wg := 0\<rparr>)"
    using p t by (simp add: listen.simps wg_Done_def demo_client_def)
  show ?thesis
    using l by (simp add: Close_def Close_from_Wait_def conn_Close_def demo_client_def
        demo_closed_def)
qed

text \<open>
  C4. \<open>Close\<close> completes by returning from \<open>Close_from_Wait\<close>, entered with \<open>done\<close>
  closed. In the state it leaves, \<open>done\<close> and the connection are closed, and for valid
  arguments \<open>Read\<close>, \<open>Write\<close> and \<open>Broadcast\<close> return a closed-connection error:
  the send fails with \<open>net.ErrClosed\<close>, which the returned error wraps. The result
  does not depend on the other goroutines, the time waited or the choice of the select:
  the call returns before the select, so it never waits for the timeout.
\<close>

theorem operations_after_Close_fail_at_once:
  assumes "done_closed c0" and "Close_from_Wait c0 = Returned cerr c"
    and "0 \<le> slot" and "slot \<le> 999" and "length d \<le> 36"
  shows "Read c slot others waited seed =
           Returned ([], Some (Errorf_w ''failed to send read command: '' net_ErrClosed))
             (deregister slot (snd (register c slot))) \<and>
         Write c slot d others waited seed =
           Returned (Some (Errorf_w ''failed to send write command: '' net_ErrClosed))
             (deregister slot (snd (register c slot))) \<and>
         Broadcast c slot d others waited seed =
           Returned (0, 0, 0, Some (Errorf_w ''failed to send broadcast command: '' net_ErrClosed))
             (deregister slot (snd (register c slot))) \<and>
         errors_Is (Errorf_w ''failed to send read command: '' net_ErrClosed) net_ErrClosed \<and>
         errors_Is (Errorf_w ''failed to send write command: '' net_ErrClosed) net_ErrClosed \<and>
         errors_Is (Errorf_w ''failed to send broadcast command: '' net_ErrClosed) net_ErrClosed \<and>
         done_closed c \<and> conn_closed (conn c)"
proof -
  have cl: "conn_closed (conn c)" using assms(2) by (rule Close_from_Wait_closed)
  have dn: "done_closed c"
    using assms(1,2) by (auto simp: Close_from_Wait_def conn_Close_def split: if_splits)
  have w: "\<And>bytes. conn_Write (snd (register c slot)) bytes =
             (Some net_ErrClosed, snd (register c slot))"
    using cl by (simp add: conn_Write_def register_def Let_def)
  have r: "register c slot = (fst (register c slot), snd (register c slot))" by simp
  have 1: "Read c slot others waited seed =
           Returned ([], Some (Errorf_w ''failed to send read command: '' net_ErrClosed))
             (deregister slot (snd (register c slot)))"
    using assms(3,4) by (simp add: Read_def Read_start_def w case_prod_unfold)
  have 2: "Write c slot d others waited seed =
           Returned (Some (Errorf_w ''failed to send write command: '' net_ErrClosed))
             (deregister slot (snd (register c slot)))"
    using assms(3,4,5) by (simp add: Write_def Write_start_def w case_prod_unfold)
  have 3: "Broadcast c slot d others waited seed =
           Returned (0, 0, 0, Some (Errorf_w ''failed to send broadcast command: '' net_ErrClosed))
             (deregister slot (snd (register c slot)))"
    using assms(3,4,5) by (simp add: Broadcast_def Broadcast_start_def w case_prod_unfold)
  show ?thesis using 1 2 3 cl dn by simp
qed

theorem operations_after_Close_fail_at_once_witness:
  "Read demo_closed 5 id 0 0 =
     Returned ([], Some (Errorf_w ''failed to send read command: '' net_ErrClosed))
       (deregister 5 (snd (register demo_closed 5))) \<and>
   Write demo_closed 5 ''hi'' id 0 0 =
     Returned (Some (Errorf_w ''failed to send write command: '' net_ErrClosed))
       (deregister 5 (snd (register demo_closed 5)))"
proof -
  have h: "done_closed (demo_client\<lparr>done_closed := True, wg := 0\<rparr>)"
    "Close_from_Wait (demo_client\<lparr>done_closed := True, wg := 0\<rparr>) = Returned None demo_closed"
    using demo_Close_runs by simp_all
  have v: "(0::int) \<le> 5" "(5::int) \<le> 999" "length ''hi'' \<le> 36" by simp_all
  show ?thesis
    using operations_after_Close_fail_at_once [OF h v, of id 0 0] by simp
qed

subsection \<open>The error table\<close>








subsection \<open>The acknowledgement of a broadcast\<close>

lemma Broadcast_start_Sent:
  assumes "0 \<le> slot" "slot \<le> 999" "length d \<le> 36" "\<not> conn_closed (conn c)"
    "conn_fault (conn c) = None"
  shows "Broadcast_start c slot d =
     Sent (next_chan c)
       (c\<lparr>chans := (chans c)(next_chan c := []),
          next_chan := Suc (next_chan c),
          pendingRequests := AList.update slot (next_chan c) (pendingRequests c),
          conn := (conn c)\<lparr>conn_written :=
                    conn_written (conn c) @ [''w'' @ fmt_03d slot @ d @ [CHR 0x0A]]\<rparr>\<rparr>)"
  using assms by (simp add: Broadcast_start_def register_def conn_Write_def Let_def)

lemma Broadcast_resolved_by_value_frame:
  assumes "0 \<le> slot" "slot \<le> 999" "length d \<le> 36" "\<not> conn_closed (conn c)"
    "conn_fault (conn c) = None"
    and "\<not> done_closed c" "waited < 5 * time_Second"
    and "4 \<le> length message" "hd message = CHR ''v''"
    and "drop 1 message \<noteq> User (Auth (config c))"
    and "Atoi (take 3 (drop 1 message)) = Inr slot"
  shows "\<exists>c'. Broadcast c slot d (\<lambda>c1. state_of (processMessage c1 message)) waited seed =
           Returned (Broadcast_result \<lparr>Data = drop 4 message, Error = None\<rparr>) c' \<and>
           map_of (pendingRequests c') slot = None"
proof -
  let ?n = "next_chan c"
  let ?c1 = "c\<lparr>chans := (chans c)(?n := []),
          next_chan := Suc ?n,
          pendingRequests := AList.update slot ?n (pendingRequests c),
          conn := (conn c)\<lparr>conn_written :=
                    conn_written (conn c) @ [''w'' @ fmt_03d slot @ d @ [CHR 0x0A]]\<rparr>\<rparr>"
  let ?r = "\<lparr>Data = drop 4 message, Error = None\<rparr>"
  let ?c2 = "?c1\<lparr>chans := (chans ?c1)(?n := [?r])\<rparr>"
  have st: "Broadcast_start c slot d = Sent ?n ?c1"
    using assms(1-5) by (rule Broadcast_start_Sent)
  have u: "drop 1 message \<noteq> User (Auth (config ?c1))" using assms(10) by simp
  have reg: "map_of (pendingRequests ?c1) slot = Some ?n"
    by (simp add: AList.update_conv')
  have "processMessage ?c1 message = chan_send ?c1 ?n ?r"
    using processMessage_value [OF assms(8,9) u assms(11)] reg by simp
  also have "\<dots> = Returned () ?c2"
    by (simp add: chan_send_def)
  finally have pm: "state_of (processMessage ?c1 message) = ?c2" by simp
  have ch: "chans ?c2 ?n = ?r # []" by simp
  have "\<not> done_closed ?c2" using assms(6) by simp
  then have sel: "select_case ?c2 ?n waited seed = Some Resolution"
    using ch assms(7) by (simp add: select_case_only_Resolution)
  have "Broadcast c slot d (\<lambda>c1. state_of (processMessage c1 message)) waited seed =
          Broadcast_wait ?c2 slot ?n waited seed"
    by (simp only: Broadcast_def st started.simps pm)
  also have "\<dots> = Returned (Broadcast_result ?r)
                     (deregister slot (?c2\<lparr>chans := (chans ?c2)(?n := [])\<rparr>))"
    using ch sel by (rule Broadcast_wait_Resolution)
  finally show ?thesis using map_of_deregister by blast
qed

lemma Atoi_007: "Atoi ''007'' = Inr 7"
  by (simp add: Atoi_def Let_def is_digit_def digit_val_def)

text \<open>
  C7. \<open>Broadcast\<close> on an open client with valid arguments, when the value frame for
  its slot is dispatched while it waits, less than five seconds after the select began:
  with the payload \<open>3/5/1\<close> it returns \<open>(3, 5, 1)\<close> and no error; with the payloads
  \<open>3/5\<close> and \<open>x/5/1\<close>, and with any payload that has not exactly three fields or
  has a field that \<open>Atoi\<close> rejects, it returns a parse error made by \<open>fmt.Errorf\<close>,
  which is never a \<open>GhotiError\<close>. In each case \<open>Broadcast\<close> returns: it does not
  panic.
\<close>

theorem Broadcast_parses_the_acknowledgement:
  assumes "0 \<le> slot" and "slot \<le> 999" and "length d \<le> 36"
    and "\<not> conn_closed (conn c)" and "conn_fault (conn c) = None"
    and "\<not> done_closed c" and "waited < 5 * time_Second"
    and "4 \<le> length message" and "hd message = CHR ''v''"
    and "drop 1 message \<noteq> User (Auth (config c))"
    and "Atoi (take 3 (drop 1 message)) = Inr slot"
  shows "(drop 4 message = ''3/5/1'' \<longrightarrow>
            (\<exists>c'. Broadcast c slot d (\<lambda>c1. state_of (processMessage c1 message)) waited seed =
                    Returned (3, 5, 1, None) c')) \<and>
         (drop 4 message = ''3/5'' \<longrightarrow>
            (\<exists>c'. Broadcast c slot d (\<lambda>c1. state_of (processMessage c1 message)) waited seed =
                    Returned (0, 0, 0, Some (Errorf ''invalid broadcast response format: 3/5''))
                      c')) \<and>
         (drop 4 message = ''x/5/1'' \<longrightarrow>
            (\<exists>c'. Broadcast c slot d (\<lambda>c1. state_of (processMessage c1 message)) waited seed =
                    Returned (0, 0, 0, Some (Errorf ''invalid received count: x'')) c')) \<and>
         (length (Split (drop 4 message) CHR ''/'') \<noteq> 3 \<or>
          (\<exists>p\<in>set (Split (drop 4 message) CHR ''/''). \<forall>n. Atoi p \<noteq> Inr n) \<longrightarrow>
            (\<exists>m c'. Broadcast c slot d (\<lambda>c1. state_of (processMessage c1 message)) waited seed =
                      Returned (0, 0, 0, Some (Errorf m)) c')) \<and>
         (\<forall>m g. Errorf m \<noteq> GhotiErr g)"
proof -
  obtain c' where w: "Broadcast c slot d (\<lambda>c1. state_of (processMessage c1 message)) waited seed =
           Returned (Broadcast_result \<lparr>Data = drop 4 message, Error = None\<rparr>) c'"
    using Broadcast_resolved_by_value_frame [OF assms, of seed] by blast
  have bad: "\<exists>m. Broadcast_result \<lparr>Data = drop 4 message, Error = None\<rparr> =
                  (0, 0, 0, Some (Errorf m))"
    if "length (Split (drop 4 message) CHR ''/'') \<noteq> 3 \<or>
        (\<exists>p\<in>set (Split (drop 4 message) CHR ''/''). \<forall>n. Atoi p \<noteq> Inr n)"
  proof (cases "length (Split (drop 4 message) CHR ''/'') = 3")
    case False
    then show ?thesis by (simp add: Broadcast_result_wrong_count)
  next
    case True
    then obtain p0 p1 p2 where ps: "Split (drop 4 message) CHR ''/'' = [p0, p1, p2]"
      by (auto simp: length_Suc_conv numeral_3_eq_3)
    with that True have "\<exists>p\<in>set [p0, p1, p2]. \<forall>n. Atoi p \<noteq> Inr n" by simp
    with ps show ?thesis by (rule Broadcast_result_bad_field)
  qed
  have 1: "drop 4 message = ''3/5/1'' \<longrightarrow>
            (\<exists>c'. Broadcast c slot d (\<lambda>c1. state_of (processMessage c1 message)) waited seed =
                    Returned (3, 5, 1, None) c')"
    using w Broadcast_result_3_5_1 by auto
  have 2: "drop 4 message = ''3/5'' \<longrightarrow>
            (\<exists>c'. Broadcast c slot d (\<lambda>c1. state_of (processMessage c1 message)) waited seed =
                    Returned (0, 0, 0, Some (Errorf ''invalid broadcast response format: 3/5''))
                      c')"
    using w Broadcast_result_3_5 by auto
  have 3: "drop 4 message = ''x/5/1'' \<longrightarrow>
            (\<exists>c'. Broadcast c slot d (\<lambda>c1. state_of (processMessage c1 message)) waited seed =
                    Returned (0, 0, 0, Some (Errorf ''invalid received count: x'')) c')"
    using w Broadcast_result_x_5_1 by auto
  have 4: "length (Split (drop 4 message) CHR ''/'') \<noteq> 3 \<or>
          (\<exists>p\<in>set (Split (drop 4 message) CHR ''/''). \<forall>n. Atoi p \<noteq> Inr n) \<longrightarrow>
            (\<exists>m c'. Broadcast c slot d (\<lambda>c1. state_of (processMessage c1 message)) waited seed =
                      Returned (0, 0, 0, Some (Errorf m)) c')"
  proof
    assume "length (Split (drop 4 message) CHR ''/'') \<noteq> 3 \<or>
          (\<exists>p\<in>set (Split (drop 4 message) CHR ''/''). \<forall>n. Atoi p \<noteq> Inr n)"
    then obtain m where "Broadcast_result \<lparr>Data = drop 4 message, Error = None\<rparr> =
                  (0, 0, 0, Some (Errorf m))" using bad by blast
    with w show "\<exists>m c'. Broadcast c slot d (\<lambda>c1. state_of (processMessage c1 message)) waited seed =
                      Returned (0, 0, 0, Some (Errorf m)) c'" by auto
  qed
  have 5: "\<forall>m g. Errorf m \<noteq> GhotiErr g" by simp
  from 1 2 3 4 5 show ?thesis by (intro conjI)
qed

theorem Broadcast_parses_the_acknowledgement_witness:
  "(\<exists>c'. Broadcast demo_client 7 ''hello'' (\<lambda>c1. state_of (processMessage c1 ''v0073/5/1'')) 0 0 =
          Returned (3, 5, 1, None) c') \<and>
   (\<exists>c'. Broadcast demo_client 7 ''hello'' (\<lambda>c1. state_of (processMessage c1 ''v007x/5/1'')) 0 0 =
          Returned (0, 0, 0, Some (Errorf ''invalid received count: x'')) c') \<and>
   (\<exists>c'. Broadcast demo_client 7 ''hello'' (\<lambda>c1. state_of (processMessage c1 ''v0073/5'')) 0 0 =
          Returned (0, 0, 0, Some (Errorf ''invalid broadcast response format: 3/5'')) c')"
proof -
  have h: "(0::int) \<le> 7" "(7::int) \<le> 999" "length ''hello'' \<le> 36"
    "\<not> conn_closed (conn demo_client)" "conn_fault (conn demo_client) = None"
    "\<not> done_closed demo_client" "(0::nat) < 5 * time_Second"
    by (simp_all add: demo_client_def time_Second_def)
  have u: "User (Auth (config demo_client)) = ''alice''"
    by (simp add: demo_client_def demo_config_def)
  have m1: "4 \<le> length ''v0073/5/1''" "hd ''v0073/5/1'' = CHR ''v''"
    "drop 1 ''v0073/5/1'' \<noteq> User (Auth (config demo_client))"
    "Atoi (take 3 (drop 1 ''v0073/5/1'')) = Inr 7"
    by (simp_all add: u Atoi_007)
  have m2: "4 \<le> length ''v007x/5/1''" "hd ''v007x/5/1'' = CHR ''v''"
    "drop 1 ''v007x/5/1'' \<noteq> User (Auth (config demo_client))"
    "Atoi (take 3 (drop 1 ''v007x/5/1'')) = Inr 7"
    by (simp_all add: u Atoi_007)
  have m3: "4 \<le> length ''v0073/5''" "hd ''v0073/5'' = CHR ''v''"
    "drop 1 ''v0073/5'' \<noteq> User (Auth (config demo_client))"
    "Atoi (take 3 (drop 1 ''v0073/5'')) = Inr 7"
    by (simp_all add: u Atoi_007)
  show ?thesis
    using Broadcast_parses_the_acknowledgement [OF h m1, of 0]
      Broadcast_parses_the_acknowledgement [OF h m2, of 0]
      Broadcast_parses_the_acknowledgement [OF h m3, of 0]
    by simp
qed

text \<open>
  C10. \<open>Broadcast\<close> does not check the sign of the counts: under the same conditions,
  when the payload of the frame splits into three fields and \<open>Atoi\<close> accepts each of
  them, \<open>Broadcast\<close> returns the three integers as parsed, with no error. The payload
  \<open>-1/5/+2\<close> gives \<open>(-1, 5, 2)\<close>.
\<close>

theorem Broadcast_returns_counts_of_any_sign:
  assumes "0 \<le> slot" and "slot \<le> 999" and "length d \<le> 36"
    and "\<not> conn_closed (conn c)" and "conn_fault (conn c) = None"
    and "\<not> done_closed c" and "waited < 5 * time_Second"
    and "4 \<le> length message" and "hd message = CHR ''v''"
    and "drop 1 message \<noteq> User (Auth (config c))"
    and "Atoi (take 3 (drop 1 message)) = Inr slot"
    and "Split (drop 4 message) CHR ''/'' = [p0, p1, p2]"
    and "Atoi p0 = Inr received" and "Atoi p1 = Inr total'" and "Atoi p2 = Inr failed"
  shows "\<exists>c'. Broadcast c slot d (\<lambda>c1. state_of (processMessage c1 message)) waited seed =
                Returned (received, total', failed, None) c'"
  using Broadcast_resolved_by_value_frame [OF assms(1-11), of seed]
    Broadcast_result_parsed [OF assms(12-15)]
  by auto

theorem Broadcast_returns_counts_of_any_sign_witness:
  "\<exists>c'. Broadcast demo_client 7 ''hello'' (\<lambda>c1. state_of (processMessage c1 ''v007-1/5/+2'')) 0 0 =
          Returned (- 1, 5, 2, None) c'"
proof -
  have h: "(0::int) \<le> 7" "(7::int) \<le> 999" "length ''hello'' \<le> 36"
    "\<not> conn_closed (conn demo_client)" "conn_fault (conn demo_client) = None"
    "\<not> done_closed demo_client" "(0::nat) < 5 * time_Second"
    by (simp_all add: demo_client_def time_Second_def)
  have m: "4 \<le> length ''v007-1/5/+2''" "hd ''v007-1/5/+2'' = CHR ''v''"
    "drop 1 ''v007-1/5/+2'' \<noteq> User (Auth (config demo_client))"
    "Atoi (take 3 (drop 1 ''v007-1/5/+2'')) = Inr 7"
    by (simp_all add: demo_client_def demo_config_def Atoi_007)
  have s: "Split (drop 4 ''v007-1/5/+2'') CHR ''/'' = [''-1'', ''5'', ''+2'']" by simp
  have a: "Atoi ''-1'' = Inr (- 1)" "Atoi ''5'' = Inr 5" "Atoi ''+2'' = Inr 2"
    by (simp_all add: Atoi_def Let_def is_digit_def digit_val_def)
  show ?thesis
    by (rule Broadcast_returns_counts_of_any_sign [OF h m s a])
qed

subsection \<open>An error frame after a value frame\<close>

text \<open>
  With \<open>Read\<close> pending on slot 5, the frame \<open>v005abc\<close> is delivered and leaves the
  slot registered with its one-place channel full. Handling \<open>e007\<close> in that state, the
  dispatcher waits at the send to that channel: the slot is still registered and its
  channel holds the value, not the error.
\<close>

theorem error_frame_waits_on_a_full_channel:
  "processMessage demo_pending ''v005abc'' =
     Returned ()
       (demo_pending\<lparr>chans := (chans demo_pending)(0 := [\<lparr>Data = ''abc'', Error = None\<rparr>])\<rparr>) \<and>
   map_of (pendingRequests
             (demo_pending\<lparr>chans := (chans demo_pending)(0 := [\<lparr>Data = ''abc'', Error = None\<rparr>])\<rparr>))
          5 = Some 0 \<and>
   processMessage
       (demo_pending\<lparr>chans := (chans demo_pending)(0 := [\<lparr>Data = ''abc'', Error = None\<rparr>])\<rparr>)
       ''e007'' =
     Blocked (AtChanSend 0)
       (demo_pending\<lparr>chans := (chans demo_pending)(0 := [\<lparr>Data = ''abc'', Error = None\<rparr>])\<rparr>) \<and>
   pendingRequests
     (state_of (processMessage
        (demo_pending\<lparr>chans := (chans demo_pending)(0 := [\<lparr>Data = ''abc'', Error = None\<rparr>])\<rparr>)
        ''e007'')) = [(5, 0)] \<and>
   chans
     (state_of (processMessage
        (demo_pending\<lparr>chans := (chans demo_pending)(0 := [\<lparr>Data = ''abc'', Error = None\<rparr>])\<rparr>)
        ''e007'')) 0 = [\<lparr>Data = ''abc'', Error = None\<rparr>]"
proof -
  let ?st = "demo_pending\<lparr>chans := (chans demo_pending)(0 := [\<lparr>Data = ''abc'', Error = None\<rparr>])\<rparr>"
  have v: "processMessage demo_pending ''v005abc'' = Returned () ?st"
    by (simp add: processMessage_def handleValueResponse_def Let_def Atoi_005 chan_send_def
        demo_pending_def demo_client_def demo_config_def)
  have e: "processMessage ?st ''e007'' = Blocked (AtChanSend 0) ?st"
    by (simp add: processMessage_def handleErrorResponse_def Let_def chan_send_def
        demo_pending_def demo_client_def)
  show ?thesis
    unfolding e v by (simp add: demo_pending_def demo_client_def)
qed

end
